theory Spec2Isabelle
  imports Complex_Main
begin

section \<open>Data model\<close>

text \<open>
  The program \<^verbatim>\<open>mathmodel(2).py\<close> simulates four coupled populations: male and
  female parasites (lampreys), their host and a predator. A state is the Python list
  (later a numpy row) \<^verbatim>\<open>[m, f, h, p]\<close>; it is modelled as a list of numbers, so that
  the unpacking \<^verbatim>\<open>m, f, h, p = state\<close> can fail as it does in Python.

  Python floats are modelled by \<^typ>\<open>real\<close>: every arithmetic operation is exact, and
  the decimal literals of the source denote the corresponding rationals. The rounding of
  IEEE-754 doubles is not represented.
\<close>

type_synonym state = "real list"

text \<open>
  The exceptions that the modelled code can raise: \<open>ValueError\<close> from unpacking a state
  that does not have four components, \<open>IndexError\<close> from indexing an array out of range,
  and \<open>SolverError\<close> for anything the external integrator raises by itself.
\<close>

datatype error = ValueError | IndexError | SolverError

section \<open>The dynamics function\<close>

text \<open>
  Lines 22 and 23 of the source, the sex-allocation fractions:
  \<^verbatim>\<open>male_ratio = 0.78 if resource_level < 0.5 else 0.56\<close> and
  \<^verbatim>\<open>female_ratio = 1 - male_ratio\<close>.
\<close>

definition male_ratio :: "real \<Rightarrow> real" where
  "male_ratio resource_level = (if resource_level < 0.5 then 0.78 else 0.56)"

definition female_ratio :: "real \<Rightarrow> real" where
  "female_ratio resource_level = 1 - male_ratio resource_level"

text \<open>
  \<^verbatim>\<open>def ecosystem_model(state, t, resource_level)\<close>, lines 16 to 44. The first equation
  is the body for a state of exactly four components; any other state makes the
  unpacking on line 18 raise \<open>ValueError\<close>.
\<close>

fun ecosystem_model :: "state \<Rightarrow> real \<Rightarrow> real \<Rightarrow> error + real list" where
  "ecosystem_model [m, f, h, p] t resource_level =
     (let eel_birth = 0.8 * f;
          eel_death = 0.1 * (m + f) + 0.02 * p * (m + f);
          host_birth = 0.5 * h;
          host_death = 0.05 * h + 0.03 * (m + f) * h;
          predator_birth = 0.04 * p * (m + f);
          predator_death = 0.2 * p;
          d_m = (male_ratio resource_level * eel_birth) - eel_death;
          d_f = (female_ratio resource_level * eel_birth) - eel_death;
          d_h = host_birth - host_death;
          d_p = predator_birth - predator_death
      in Inr [d_m, d_f, d_h, d_p])"
| "ecosystem_model _ t resource_level = Inl ValueError"

section \<open>The integration loop\<close>

text \<open>
  Lines 58 to 66 advance the state over each interval \<open>[t[i], t[i+1]]\<close> with scipy's
  \<^verbatim>\<open>odeint\<close>, which is not part of the program. The loop is therefore modelled over
  an arbitrary solver: \<open>odeint func y0 t0 t1\<close> stands for the last row of
  \<^verbatim>\<open>odeint(func, y0, [t0, t1], args=...)\<close>, the state at \<open>t1\<close>, or for the exception
  that the call raises. The right-hand side handed to the solver is the dynamics
  function with its third argument fixed.
\<close>

type_synonym rhs = "state \<Rightarrow> real \<Rightarrow> error + real list"

type_synonym solver = "rhs \<Rightarrow> state \<Rightarrow> real \<Rightarrow> real \<Rightarrow> error + state"

text \<open>
  The loop \<^verbatim>\<open>for i in range(len(t)-1)\<close> with its two variables \<open>current_state\<close> and
  \<open>states\<close>. For an empty grid \<open>range(-1)\<close> is empty, as \<open>length t - 1 = 0\<close> is here.
  \<open>t[i]\<close> and \<open>t[i+1]\<close> are always in range; \<open>resource_levels[i]\<close> raises
  \<open>IndexError\<close> when the schedule is too short, before the solver is called.
\<close>

function loop :: "solver \<Rightarrow> real list \<Rightarrow> real list \<Rightarrow> nat \<Rightarrow> state \<Rightarrow> state list
    \<Rightarrow> error + state list" where
  "loop odeint t resource_levels i current_state states =
     (if i < length t - 1 then
        (if i < length resource_levels then
           (case odeint (\<lambda>y \<tau>. ecosystem_model y \<tau> (resource_levels ! i))
                   current_state (t ! i) (t ! (i + 1)) of
              Inl e \<Rightarrow> Inl e
            | Inr res_last \<Rightarrow>
                loop odeint t resource_levels (i + 1) res_last (states @ [res_last]))
         else Inl IndexError)
      else Inr states)"
  by pat_completeness auto
termination
  by (relation "measure (\<lambda>(odeint, t, resource_levels, i, current_state, states).
        length t - 1 - i)") auto

declare loop.simps [simp del]

text \<open>
  The whole of lines 58 to 65: \<open>states = []\<close>, \<open>current_state = initial_state.copy()\<close>,
  then the loop from \<open>i = 0\<close>.
\<close>

definition simulate :: "solver \<Rightarrow> real list \<Rightarrow> real list \<Rightarrow> state \<Rightarrow> error + state list" where
  "simulate odeint t resource_levels initial_state =
     loop odeint t resource_levels 0 initial_state []"

text \<open>
  One explicit Euler step is the simplest instance of the solver interface. It is used
  to run the loop on concrete inputs; the program itself calls \<^verbatim>\<open>odeint\<close>.
\<close>

definition euler_solver :: solver where
  "euler_solver func y0 t0 t1 =
     (case func y0 t0 of
        Inl e \<Rightarrow> Inl e
      | Inr dy \<Rightarrow> Inr (map2 (\<lambda>y d. y + (t1 - t0) * d) y0 dy))"

text \<open>
  The per-interval solves that a run from index \<open>i\<close> and state \<open>cur\<close> performs when it
  produces the states \<open>new\<close>: each solve starts from the previous result and uses the
  resource level at the left end of its interval.
\<close>

primrec solves_in_sequence :: "solver \<Rightarrow> real list \<Rightarrow> real list \<Rightarrow> nat \<Rightarrow> state \<Rightarrow> state list
    \<Rightarrow> bool" where
  "solves_in_sequence odeint t rl i cur [] = True"
| "solves_in_sequence odeint t rl i cur (x # xs) =
     (odeint (\<lambda>y \<tau>. ecosystem_model y \<tau> (rl ! i)) cur (t ! i) (t ! (i + 1)) = Inr x \<and>
      solves_in_sequence odeint t rl (i + 1) x xs)"

section \<open>Derived series\<close>

text \<open>
  After line 66 \<open>states\<close> is a two-dimensional numpy array of floats with one row per
  grid point after the first. \<open>states[:, j]\<close> is its column \<open>j\<close>; the indexing raises
  \<open>IndexError\<close> when the array has no rows (it is one-dimensional then) or no column
  \<open>j\<close>. Rows of different lengths do not form a two-dimensional array either, and no
  column can be read from them; the model reports that as \<open>IndexError\<close> too.
\<close>

definition column :: "nat \<Rightarrow> state list \<Rightarrow> error + real list" where
  "column j states =
     (if states = [] \<or> (\<exists>row \<in> set states. length row \<noteq> length (hd states)) \<or>
         length (hd states) \<le> j
      then Inl IndexError
      else Inr (map (\<lambda>row. row ! j) states))"

text \<open>
  A numpy float is a finite number, an infinity or not-a-number. Dividing float arrays
  never raises: with numpy's default error state a zero divisor gives \<open>nan\<close> for a zero
  dividend and a signed infinity otherwise, with a warning. The divisor of line 86 is
  \<open>m + f\<close>, which is \<open>+0.0\<close> whenever it is zero and \<open>m\<close> is not, so the infinity has the
  sign of the dividend.
\<close>

datatype np_float = Finite real | PosInf | NegInf | NaN

definition np_divide :: "real \<Rightarrow> real \<Rightarrow> np_float" where
  "np_divide a b =
     (if b \<noteq> 0 then Finite (a / b)
      else if a = 0 then NaN
      else if 0 < a then PosInf
      else NegInf)"

text \<open>
  The total parasite population \<^verbatim>\<open>states[:,0]+states[:,1]\<close> (lines 125, 137 and 163)
  and the male fraction of line 86,
  \<^verbatim>\<open>male_ratio = states[:,0]/(states[:,0]+states[:,1])\<close>.
\<close>

definition total_series :: "state list \<Rightarrow> error + real list" where
  "total_series states =
     (case column 0 states of
        Inl e \<Rightarrow> Inl e
      | Inr ms \<Rightarrow>
          (case column 1 states of
             Inl e \<Rightarrow> Inl e
           | Inr fs \<Rightarrow> Inr (map2 (+) ms fs)))"

definition male_ratio_series :: "state list \<Rightarrow> error + np_float list" where
  "male_ratio_series states =
     (case column 0 states of
        Inl e \<Rightarrow> Inl e
      | Inr ms \<Rightarrow>
          (case total_series states of
             Inl e \<Rightarrow> Inl e
           | Inr totals \<Rightarrow> Inr (map2 np_divide ms totals)))"

section \<open>Properties of the dynamics function\<close>


text \<open>
  Claim C1. For every state \<open>[m, f, h, p]\<close>, every time and every resource level, the
  male rate is the male fraction of the birth flux \<open>0.8 * f\<close> minus the death term
  \<open>0.1 * (m + f) + 0.02 * p * (m + f)\<close>, and the female rate is the female fraction of
  the same birth flux minus the same death term.
\<close>

theorem parasite_rates:
  "\<exists>d_h d_p. ecosystem_model [m, f, h, p] t r =
     Inr [male_ratio r * 0.8 * f - (0.1 * (m + f) + 0.02 * p * (m + f)),
          female_ratio r * 0.8 * f - (0.1 * (m + f) + 0.02 * p * (m + f)),
          d_h, d_p]"
  by (simp add: Let_def mult.assoc)

text \<open>
  Claim C2. The sex-allocation fractions depend on the resource level only: at the
  scarce level 0 the male fraction is 78 percent and the female fraction 22 percent, at
  the abundant level 1 they are 56 and 44 percent; these are the fractions that the
  dynamics function applies to the birth flux, whatever the state.
\<close>

theorem sex_allocation_fractions:
  "male_ratio 0 = 78 / 100 \<and> female_ratio 0 = 22 / 100 \<and>
   male_ratio 1 = 56 / 100 \<and> female_ratio 1 = 44 / 100 \<and>
   (\<exists>d_h d_p. ecosystem_model [m, f, h, p] t 0 =
      Inr [78 / 100 * (0.8 * f) - (0.1 * (m + f) + 0.02 * p * (m + f)),
           22 / 100 * (0.8 * f) - (0.1 * (m + f) + 0.02 * p * (m + f)), d_h, d_p]) \<and>
   (\<exists>d_h d_p. ecosystem_model [m, f, h, p] t 1 =
      Inr [56 / 100 * (0.8 * f) - (0.1 * (m + f) + 0.02 * p * (m + f)),
           44 / 100 * (0.8 * f) - (0.1 * (m + f) + 0.02 * p * (m + f)), d_h, d_p])"
  by (simp add: male_ratio_def female_ratio_def Let_def)

text \<open>
  Claim C3. The host rate is \<open>0.5 * h - (0.05 * h + 0.03 * (m + f) * h)\<close>, the predator
  rate is \<open>0.04 * p * (m + f) - 0.2 * p\<close>, and the result lists the four rates in the
  order of the state: males, females, host, predator.
\<close>

theorem host_predator_rates:
  "\<exists>d_m d_f. ecosystem_model [m, f, h, p] t r =
       Inr [d_m, d_f, 0.5 * h - (0.05 * h + 0.03 * (m + f) * h),
            0.04 * p * (m + f) - 0.2 * p] \<and>
     d_m = male_ratio r * (0.8 * f) - (0.1 * (m + f) + 0.02 * p * (m + f)) \<and>
     d_f = female_ratio r * (0.8 * f) - (0.1 * (m + f) + 0.02 * p * (m + f))"
  by (simp add: Let_def)

text \<open>
  Claim C5. At the state \<open>[10, 10, 100, 5]\<close> and the scarce resource level 0 the male
  rate is \<open>0.78 * 0.8 * 10 - (0.1 * 20 + 0.02 * 5 * 20) = 6.24 - 4.0 = 2.24\<close>; the other
  three rates are \<open>- 2.24\<close>, \<open>- 15\<close> and \<open>3\<close>.
\<close>

theorem rate_test_vector:
  "ecosystem_model [10, 10, 100, 5] t 0 = Inr [2.24, - 2.24, - 15, 3] \<and>
   (0.78 * 0.8 * 10 - (0.1 * 20 + 0.02 * 5 * 20) :: real) = 6.24 - 4.0 \<and>
   (6.24 - 4.0 :: real) = 2.24"
  by (simp add: male_ratio_def female_ratio_def Let_def)

text \<open>
  Claim C9. The dynamics function is a function of the state and the resource level
  only: the time argument is never read, so two calls that differ in it alone return
  the same rates (or raise the same error).
\<close>

theorem time_argument_ignored:
  "ecosystem_model s t1 r = ecosystem_model s t2 r"
  by (induction s t1 r rule: ecosystem_model.induct) simp_all

text \<open>
  Claim C10. The two fractions add up to one at every resource level, so the male and
  female rates together receive the whole birth flux \<open>0.8 * f\<close> and pay the death term
  twice.
\<close>

theorem birth_flux_fully_allocated:
  "male_ratio r + female_ratio r = 1 \<and>
   (\<exists>d_m d_f d_h d_p. ecosystem_model [m, f, h, p] t r = Inr [d_m, d_f, d_h, d_p] \<and>
      d_m + d_f = 0.8 * f - 2 * (0.1 * (m + f) + 0.02 * p * (m + f)) \<and>
      (d_m + (0.1 * (m + f) + 0.02 * p * (m + f))) +
      (d_f + (0.1 * (m + f) + 0.02 * p * (m + f))) = 0.8 * f)"
proof -
  let ?death = "0.1 * (m + f) + 0.02 * p * (m + f)"
  let ?d_m = "male_ratio r * (0.8 * f) - ?death"
  let ?d_f = "female_ratio r * (0.8 * f) - ?death"
  have sum1: "male_ratio r + female_ratio r = 1"
    by (simp add: female_ratio_def)
  have run: "ecosystem_model [m, f, h, p] t r =
      Inr [?d_m, ?d_f, 0.5 * h - (0.05 * h + 0.03 * (m + f) * h),
           0.04 * p * (m + f) - 0.2 * p]"
    by (simp add: Let_def)
  have "?d_m + ?d_f = (male_ratio r + female_ratio r) * (0.8 * f) - 2 * ?death"
    by (simp only: distrib_right) simp
  then have total: "?d_m + ?d_f = 0.8 * f - 2 * ?death"
    by (simp only: sum1 mult_1)
  have "(?d_m + ?death) + (?d_f + ?death) = (male_ratio r + female_ratio r) * (0.8 * f)"
    by (simp only: distrib_right)
  then have births: "(?d_m + ?death) + (?d_f + ?death) = 0.8 * f"
    by (simp only: sum1 mult_1)
  from run total births have
    "ecosystem_model [m, f, h, p] t r =
       Inr [?d_m, ?d_f, 0.5 * h - (0.05 * h + 0.03 * (m + f) * h),
            0.04 * p * (m + f) - 0.2 * p] \<and>
     ?d_m + ?d_f = 0.8 * f - 2 * ?death \<and>
     (?d_m + ?death) + (?d_f + ?death) = 0.8 * f"
    by (intro conjI)
  then show ?thesis
    using sum1 by blast
qed

section \<open>Properties of the integration loop\<close>

text \<open>
  A run of the loop from index \<open>i\<close> returns a trajectory exactly when the solves of the
  remaining intervals succeed one after the other; the trajectory then extends the
  accumulated states by one state per remaining interval.
\<close>

lemma loop_Inr_iff:
  "i \<le> length t - 1 \<Longrightarrow> length t - 1 \<le> length rl \<Longrightarrow>
   loop od t rl i cur acc = Inr traj \<longleftrightarrow>
     (\<exists>new. traj = acc @ new \<and> length new = length t - 1 - i \<and>
        solves_in_sequence od t rl i cur new)"
proof (induction od t rl i cur acc rule: loop.induct)
  case (1 od t rl i cur acc)
  show ?case
  proof (cases "i < length t - 1")
    case False
    with 1(2) have "i = length t - 1" by simp
    then show ?thesis
      by (subst loop.simps) auto
  next
    case True
    with 1(3) have irl: "i < length rl" by simp
    show ?thesis
    proof (cases "od (\<lambda>y \<tau>. ecosystem_model y \<tau> (rl ! i)) cur (t ! i) (t ! (i + 1))")
      case (Inl e)
      have "loop od t rl i cur acc = Inl e"
        using True irl Inl by (subst loop.simps) simp
      moreover have "\<not> (\<exists>new. traj = acc @ new \<and> length new = length t - 1 - i \<and>
        solves_in_sequence od t rl i cur new)"
      proof
        assume "\<exists>new. traj = acc @ new \<and> length new = length t - 1 - i \<and>
          solves_in_sequence od t rl i cur new"
        then obtain new where n: "length new = length t - 1 - i" "solves_in_sequence od t rl i cur new"
          by blast
        from n(1) True obtain x xs where "new = x # xs" by (cases new) auto
        with n(2) Inl show False by simp
      qed
      ultimately show ?thesis by simp
    next
      case (Inr x)
      have step: "loop od t rl i cur acc = loop od t rl (i + 1) x (acc @ [x])"
        using True irl Inr by (subst loop.simps) simp
      have IH: "loop od t rl (i + 1) x (acc @ [x]) = Inr traj \<longleftrightarrow>
        (\<exists>new. traj = (acc @ [x]) @ new \<and> length new = length t - 1 - (i + 1) \<and>
           solves_in_sequence od t rl (i + 1) x new)"
        using 1(1)[OF True irl Inr] True 1(3) by simp
      have "(\<exists>new. traj = (acc @ [x]) @ new \<and> length new = length t - 1 - (i + 1) \<and>
           solves_in_sequence od t rl (i + 1) x new) \<longleftrightarrow>
         (\<exists>new. traj = acc @ new \<and> length new = length t - 1 - i \<and>
           solves_in_sequence od t rl i cur new)" (is "?L \<longleftrightarrow> ?R")
      proof
        assume ?L
        then obtain new where n: "traj = (acc @ [x]) @ new" "length new = length t - 1 - (i + 1)"
           "solves_in_sequence od t rl (i + 1) x new" by blast
        have "traj = acc @ (x # new)" using n(1) by simp
        moreover have "length (x # new) = length t - 1 - i" using n(2) True by simp
        moreover have "solves_in_sequence od t rl i cur (x # new)" using n(3) Inr by simp
        ultimately show ?R by blast
      next
        assume ?R
        then obtain new where n: "traj = acc @ new" "length new = length t - 1 - i"
           "solves_in_sequence od t rl i cur new" by blast
        from n(2) True obtain y ys where new: "new = y # ys" by (cases new) auto
        with n(3) Inr have "y = x" and ys: "solves_in_sequence od t rl (i + 1) x ys" by simp_all
        have "traj = (acc @ [x]) @ ys" using n(1) new \<open>y = x\<close> by simp
        moreover have "length ys = length t - 1 - (i + 1)" using n(2) new by simp
        ultimately show ?L using ys by blast
      qed
      with step IH show ?thesis by simp
    qed
  qed
qed

lemma solves_in_sequence_nth:
  "solves_in_sequence od t rl i cur new \<longleftrightarrow>
     (\<forall>k<length new.
        od (\<lambda>y \<tau>. ecosystem_model y \<tau> (rl ! (i + k)))
           (if k = 0 then cur else new ! (k - 1)) (t ! (i + k)) (t ! (i + k + 1)) = Inr (new ! k))"
proof (induction new arbitrary: i cur)
  case Nil
  show ?case by simp
next
  case (Cons x xs)
  have "(\<forall>k<length xs.
        od (\<lambda>y \<tau>. ecosystem_model y \<tau> (rl ! (i + 1 + k)))
           (if k = 0 then x else xs ! (k - 1)) (t ! (i + 1 + k)) (t ! (i + 1 + k + 1)) = Inr (xs ! k))
     \<longleftrightarrow> (\<forall>k<length xs.
        od (\<lambda>y \<tau>. ecosystem_model y \<tau> (rl ! (i + Suc k)))
           ((x # xs) ! k) (t ! (i + Suc k)) (t ! (i + Suc k + 1)) = Inr (xs ! k))"
    by (intro all_cong1 imp_cong refl) (auto simp: nth_Cons')
  then show ?case
    by (simp add: Cons.IH All_less_Suc2)
qed


lemma simulate_Inr_iff:
  assumes "length t - 1 \<le> length rl"
  shows "simulate od t rl s0 = Inr traj \<longleftrightarrow>
     length traj = length t - 1 \<and>
     (\<forall>k<length t - 1.
        od (\<lambda>y \<tau>. ecosystem_model y \<tau> (rl ! k))
           (if k = 0 then s0 else traj ! (k - 1)) (t ! k) (t ! (k + 1)) = Inr (traj ! k))"
proof -
  have "loop od t rl 0 s0 [] = Inr traj \<longleftrightarrow>
     (\<exists>new. traj = [] @ new \<and> length new = length t - 1 - 0 \<and>
        solves_in_sequence od t rl 0 s0 new)"
    using assms by (intro loop_Inr_iff) simp_all
  then have "simulate od t rl s0 = Inr traj \<longleftrightarrow>
      length traj = length t - 1 \<and> solves_in_sequence od t rl 0 s0 traj"
    unfolding simulate_def by simp
  also have "\<dots> \<longleftrightarrow> length traj = length t - 1 \<and>
     (\<forall>k<length traj.
        od (\<lambda>y \<tau>. ecosystem_model y \<tau> (rl ! (0 + k)))
           (if k = 0 then s0 else traj ! (k - 1)) (t ! (0 + k)) (t ! (0 + k + 1)) = Inr (traj ! k))"
    by (simp only: solves_in_sequence_nth)
  also have "\<dots> \<longleftrightarrow> length traj = length t - 1 \<and>
     (\<forall>k<length t - 1.
        od (\<lambda>y \<tau>. ecosystem_model y \<tau> (rl ! k))
           (if k = 0 then s0 else traj ! (k - 1)) (t ! k) (t ! (k + 1)) = Inr (traj ! k))"
    by (cases "length traj = length t - 1") simp_all
  finally show ?thesis .
qed

text \<open>
  The loop reads the schedule only at the indices below \<open>length t - 1\<close>: an entry at or
  beyond that index does not influence the run.
\<close>

lemma loop_update_unread:
  "length t - 1 \<le> k \<Longrightarrow> loop od t (rl[k := v]) i cur acc = loop od t rl i cur acc"
proof (induction od t rl i cur acc rule: loop.induct)
  case (1 od t rl i cur acc)
  show ?case
  proof (cases "i < length t - 1 \<and> i < length rl")
    case False
    then show ?thesis
      by (subst loop.simps, subst (2) loop.simps) auto
  next
    case True
    then have ik: "rl[k := v] ! i = rl ! i" using 1(2) by simp
    show ?thesis
    proof (cases "od (\<lambda>y \<tau>. ecosystem_model y \<tau> (rl ! i)) cur (t ! i) (t ! (i + 1))")
      case (Inl e)
      then show ?thesis
        using True ik by (subst loop.simps, subst (2) loop.simps) simp
    next
      case (Inr x)
      have "loop od t (rl[k := v]) (i + 1) x (acc @ [x]) = loop od t rl (i + 1) x (acc @ [x])"
        using 1(1)[OF _ _ Inr 1(2)] True by simp
      then show ?thesis
        using True ik Inr by (subst loop.simps, subst (2) loop.simps) simp
    qed
  qed
qed

text \<open>
  A schedule with fewer entries than the grid has intervals never yields a trajectory:
  the run ends in an exception.
\<close>

lemma loop_short_schedule:
  "i \<le> length rl \<Longrightarrow> length rl < length t - 1 \<Longrightarrow> \<exists>e. loop od t rl i cur acc = Inl e"
proof (induction od t rl i cur acc rule: loop.induct)
  case (1 od t rl i cur acc)
  from 1(2,3) have it: "i < length t - 1" by simp
  show ?case
  proof (cases "i < length rl")
    case False
    then show ?thesis using it by (subst loop.simps) simp
  next
    case True
    show ?thesis
    proof (cases "od (\<lambda>y \<tau>. ecosystem_model y \<tau> (rl ! i)) cur (t ! i) (t ! (i + 1))")
      case (Inl e)
      then show ?thesis using it True by (subst loop.simps) simp
    next
      case (Inr x)
      have "\<exists>e. loop od t rl (i + 1) x (acc @ [x]) = Inl e"
        using 1(1)[OF it True Inr _ 1(3)] True by simp
      then show ?thesis using it True Inr by (subst loop.simps) simp
    qed
  qed
qed




text \<open>
  A solver that returns a four-component state for every four-component state never
  makes the dynamics function fail, and the loop then runs to its end.
\<close>

lemma loop_total:
  assumes good: "\<forall>r y a b. length y = 4 \<longrightarrow>
      (\<exists>y'. od (\<lambda>y \<tau>. ecosystem_model y \<tau> r) y a b = Inr y' \<and> length y' = 4)"
  shows "length cur = 4 \<Longrightarrow> length t - 1 \<le> length rl \<Longrightarrow>
     \<exists>new. loop od t rl i cur acc = Inr (acc @ new) \<and> list_all (\<lambda>s. length s = 4) new"
  using good
proof (induction od t rl i cur acc rule: loop.induct)
  case (1 od t rl i cur acc)
  show ?case
  proof (cases "i < length t - 1")
    case False
    then have "loop od t rl i cur acc = Inr (acc @ [])" by (subst loop.simps) simp
    then show ?thesis by (intro exI[of _ "[]"]) simp
  next
    case True
    with 1(3) have irl: "i < length rl" by simp
    from 1(2,4) obtain x where
      x: "od (\<lambda>y \<tau>. ecosystem_model y \<tau> (rl ! i)) cur (t ! i) (t ! (i + 1)) = Inr x"
      and lx: "length x = 4" by blast
    from 1(1)[OF True irl x lx 1(3) 1(4)] obtain new where
      new: "loop od t rl (i + 1) x (acc @ [x]) = Inr ((acc @ [x]) @ new)"
        "list_all (\<lambda>s. length s = 4) new" by blast
    have "loop od t rl i cur acc = Inr (acc @ (x # new))"
      using True irl x new(1) by (subst loop.simps) simp
    moreover have "list_all (\<lambda>s. length s = 4) (x # new)" using lx new(2) by simp
    ultimately show ?thesis by blast
  qed
qed


text \<open>
  Two runs from the same state whose schedules agree below index \<open>j\<close> produce the same
  states up to grid point \<open>j\<close>.
\<close>

lemma sequence_prefix_agree:
  "solves_in_sequence od t rl i cur new \<Longrightarrow> solves_in_sequence od t rl' i cur new' \<Longrightarrow>
   length new = length new' \<Longrightarrow> (\<forall>k. i \<le> k \<and> k < j \<longrightarrow> rl ! k = rl' ! k) \<Longrightarrow>
   take (j - i) new = take (j - i) new'"
proof (induction new arbitrary: new' i cur)
  case Nil
  then show ?case by simp
next
  case (Cons x xs)
  from Cons.prems(3) obtain y ys where new': "new' = y # ys" by (cases new') auto
  show ?case
  proof (cases "i < j")
    case False
    then show ?thesis by simp
  next
    case True
    with Cons.prems(4) have "rl ! i = rl' ! i" by simp
    with Cons.prems(1,2) new' have xy: "x = y" by simp
    have "take (j - (i + 1)) xs = take (j - (i + 1)) ys"
      using Cons.IH[of "i + 1" x ys] Cons.prems new' xy by simp
    moreover have "j - i = Suc (j - (i + 1))" using True by simp
    ultimately show ?thesis using new' xy by simp
  qed
qed

section \<open>The trajectory of the integrator\<close>

text \<open>
  Claim C4. For a time grid of length \<open>N \<ge> 2\<close> and a schedule of the same length, the
  integrator returns a trajectory exactly when the solves of the \<open>N - 1\<close> intervals
  succeed in sequence; the trajectory has \<open>N - 1\<close> states, and state \<open>i\<close> (the state at
  grid point \<open>i + 1\<close>) is the solver's result over \<open>[t[i], t[i+1]]\<close> for the dynamics with
  the resource level of index \<open>i\<close>, started from the initial state for \<open>i = 0\<close> and from
  state \<open>i - 1\<close> otherwise. With a four-component initial state and a solver that
  returns four-component states the trajectory exists. Changing the schedule at index
  \<open>i + 1\<close> alone leaves the states up to grid point \<open>i + 1\<close> as they were, and the last
  schedule entry is never read.
\<close>

theorem integrator_trajectory:
  assumes "length t = N" and "length resource_levels = N" and "2 \<le> N"
  shows "(simulate odeint t resource_levels initial_state = Inr traj \<longleftrightarrow>
            length traj = N - 1 \<and>
            (\<forall>i<N - 1.
               odeint (\<lambda>y \<tau>. ecosystem_model y \<tau> (resource_levels ! i))
                 (if i = 0 then initial_state else traj ! (i - 1)) (t ! i) (t ! (i + 1))
               = Inr (traj ! i))) \<and>
         (length initial_state = 4 \<and>
          (\<forall>r y a b. length y = 4 \<longrightarrow>
             (\<exists>y'. odeint (\<lambda>y \<tau>. ecosystem_model y \<tau> r) y a b = Inr y' \<and> length y' = 4))
          \<longrightarrow> (\<exists>states. simulate odeint t resource_levels initial_state = Inr states \<and>
                 length states = N - 1)) \<and>
         (i < N - 1 \<and> simulate odeint t resource_levels initial_state = Inr states \<and>
          simulate odeint t (resource_levels[i + 1 := v]) initial_state = Inr states'
          \<longrightarrow> states' ! i = states ! i \<and> take (i + 1) states' = take (i + 1) states) \<and>
         simulate odeint t (resource_levels[N - 1 := v]) initial_state =
           simulate odeint t resource_levels initial_state"
proof (intro conjI)
  have cover: "length t - 1 \<le> length resource_levels"
    using assms by simp
  show "simulate odeint t resource_levels initial_state = Inr traj \<longleftrightarrow>
            length traj = N - 1 \<and>
            (\<forall>i<N - 1.
               odeint (\<lambda>y \<tau>. ecosystem_model y \<tau> (resource_levels ! i))
                 (if i = 0 then initial_state else traj ! (i - 1)) (t ! i) (t ! (i + 1))
               = Inr (traj ! i))"
    using simulate_Inr_iff[OF cover, of odeint initial_state traj] assms(1) by simp
  show "length initial_state = 4 \<and>
          (\<forall>r y a b. length y = 4 \<longrightarrow>
             (\<exists>y'. odeint (\<lambda>y \<tau>. ecosystem_model y \<tau> r) y a b = Inr y' \<and> length y' = 4))
          \<longrightarrow> (\<exists>states. simulate odeint t resource_levels initial_state = Inr states \<and>
                 length states = N - 1)"
  proof
    assume h: "length initial_state = 4 \<and>
          (\<forall>r y a b. length y = 4 \<longrightarrow>
             (\<exists>y'. odeint (\<lambda>y \<tau>. ecosystem_model y \<tau> r) y a b = Inr y' \<and> length y' = 4))"
    then obtain new where
      "loop odeint t resource_levels 0 initial_state [] = Inr ([] @ new)"
      using loop_total[of odeint initial_state t resource_levels 0 "[]"] cover by blast
    then have run: "simulate odeint t resource_levels initial_state = Inr new"
      by (simp add: simulate_def)
    then have "length new = N - 1"
      using simulate_Inr_iff[OF cover, of odeint initial_state new] assms(1) by simp
    with run show "\<exists>states. simulate odeint t resource_levels initial_state = Inr states \<and>
                 length states = N - 1" by blast
  qed
  show "i < N - 1 \<and> simulate odeint t resource_levels initial_state = Inr states \<and>
          simulate odeint t (resource_levels[i + 1 := v]) initial_state = Inr states'
          \<longrightarrow> states' ! i = states ! i \<and> take (i + 1) states' = take (i + 1) states"
  proof
    assume h: "i < N - 1 \<and> simulate odeint t resource_levels initial_state = Inr states \<and>
          simulate odeint t (resource_levels[i + 1 := v]) initial_state = Inr states'"
    let ?rl' = "resource_levels[i + 1 := v]"
    have cover': "length t - 1 \<le> length ?rl'" using cover by simp
    have a: "length states = length t - 1 \<and> solves_in_sequence odeint t resource_levels 0 initial_state states"
      using h loop_Inr_iff[of 0 t resource_levels odeint initial_state "[]" states] cover
      by (simp add: simulate_def)
    have b: "length states' = length t - 1 \<and> solves_in_sequence odeint t ?rl' 0 initial_state states'"
      using h loop_Inr_iff[of 0 t ?rl' odeint initial_state "[]" states'] cover'
      by (simp add: simulate_def)
    have agree: "\<forall>k. 0 \<le> k \<and> k < i + 1 \<longrightarrow> ?rl' ! k = resource_levels ! k"
      by simp
    have tk: "take (i + 1 - 0) states' = take (i + 1 - 0) states"
      using sequence_prefix_agree[of odeint t ?rl' 0 initial_state states' resource_levels states "i + 1"]
        a b agree by simp
    then have tk': "take (i + 1) states' = take (i + 1) states" by simp
    have "take (i + 1) states' ! i = take (i + 1) states ! i" using tk' by simp
    then have "states' ! i = states ! i" by simp
    with tk' show "states' ! i = states ! i \<and> take (i + 1) states' = take (i + 1) states"
      by simp
  qed
  have "length t - 1 \<le> N - 1" using assms(1) by simp
  then show "simulate odeint t (resource_levels[N - 1 := v]) initial_state =
      simulate odeint t resource_levels initial_state"
    unfolding simulate_def by (rule loop_update_unread)
qed

theorem integrator_trajectory_witness:
  "length [0, 1, 2 :: real] = 3 \<and> length [0, 0, 1 :: real] = 3 \<and> (2 :: nat) \<le> 3 \<and>
   simulate euler_solver [0, 1, 2] [0, 0, 1] [10, 10, 100, 5] =
     Inr [[306 / 25, 194 / 25, 85, 8], [37132 / 3125, 12268 / 3125, 289 / 4, 64 / 5]]"
proof -
  have h1: "length [0, 1, 2 :: real] = 3" by simp
  have h2: "length [0, 0, 1 :: real] = 3" by simp
  have h3: "(2 :: nat) \<le> 3" by simp
  have "simulate euler_solver [0, 1, 2] [0, 0, 1] [10, 10, 100, 5] =
       Inr [[306 / 25, 194 / 25, 85, 8], [37132 / 3125, 12268 / 3125, 289 / 4, 64 / 5]] \<longleftrightarrow>
     length [[306 / 25, 194 / 25, 85, 8], [37132 / 3125, 12268 / 3125, 289 / 4, 64 / 5 :: real]] = 3 - 1 \<and>
     (\<forall>i<3 - 1.
        euler_solver (\<lambda>y \<tau>. ecosystem_model y \<tau> ([0, 0, 1] ! i))
          (if i = 0 then [10, 10, 100, 5]
           else [[306 / 25, 194 / 25, 85, 8], [37132 / 3125, 12268 / 3125, 289 / 4, 64 / 5]] ! (i - 1))
          ([0, 1, 2] ! i) ([0, 1, 2] ! (i + 1))
        = Inr ([[306 / 25, 194 / 25, 85, 8], [37132 / 3125, 12268 / 3125, 289 / 4, 64 / 5]] ! i))"
    using integrator_trajectory[OF h1 h2 h3] by blast
  moreover have "(\<forall>i<(3::nat) - 1.
        euler_solver (\<lambda>y \<tau>. ecosystem_model y \<tau> ([0, 0, 1] ! i))
          (if i = 0 then [10, 10, 100, 5]
           else [[306 / 25, 194 / 25, 85, 8], [37132 / 3125, 12268 / 3125, 289 / 4, 64 / 5]] ! (i - 1))
          ([0, 1, 2] ! i) ([0, 1, 2] ! (i + 1))
        = Inr ([[306 / 25, 194 / 25, 85, 8], [37132 / 3125, 12268 / 3125, 289 / 4, 64 / 5]] ! i))"
    by (simp add: less_2_cases_iff euler_solver_def male_ratio_def female_ratio_def Let_def)
  ultimately show ?thesis by simp
qed

section \<open>Input shapes\<close>




section \<open>The derived series at a zero parasite population\<close>

lemma column_rows:
  assumes "states \<noteq> []" and "\<forall>row \<in> set states. length row = n" and "j < n"
  shows "column j states = Inr (map (\<lambda>row. row ! j) states)"
proof -
  have "hd states \<in> set states" using assms(1) by simp
  then have "length (hd states) = n" using assms(2) by blast
  then show ?thesis using assms by (simp add: column_def)
qed

lemma map2_same: "map2 f (map g xs) (map h xs) = map (\<lambda>x. f (g x) (h x)) xs"
  by (induction xs) simp_all

lemma total_series_rows:
  assumes "states \<noteq> []" and "\<forall>row \<in> set states. length row = 4"
  shows "total_series states = Inr (map (\<lambda>row. row ! 0 + row ! 1) states)"
proof -
  have "column 0 states = Inr (map (\<lambda>row. row ! 0) states)"
    using assms by (intro column_rows[where n = 4]) simp_all
  moreover have "column 1 states = Inr (map (\<lambda>row. row ! 1) states)"
    using assms by (intro column_rows[where n = 4]) simp_all
  ultimately show ?thesis
    by (simp add: total_series_def map2_same)
qed

lemma male_ratio_series_rows:
  assumes "states \<noteq> []" and "\<forall>row \<in> set states. length row = 4"
  shows "male_ratio_series states =
     Inr (map (\<lambda>row. np_divide (row ! 0) (row ! 0 + row ! 1)) states)"
proof -
  have "column 0 states = Inr (map (\<lambda>row. row ! 0) states)"
    using assms by (intro column_rows[where n = 4]) simp_all
  then show ?thesis
    using total_series_rows[OF assms] by (simp add: male_ratio_series_def map2_same)
qed

text \<open>
  Claim C7. For a trajectory of four-component states and a point \<open>i\<close> where males plus
  females is zero, the male-fraction series is computed without an exception and has one
  entry per state; its entry at \<open>i\<close> is not a finite number (\<open>nan\<close> when the male count
  is zero too, a signed infinity otherwise), the total-population series is 0 there,
  every point with a non-zero total carries the quotient, and the host and predator
  columns are read as usual.
\<close>

theorem degenerate_ratio:
  assumes "states \<noteq> []" and "\<forall>row \<in> set states. length row = 4"
    and "i < length states" and "states ! i ! 0 + states ! i ! 1 = 0"
  shows "\<exists>ratios totals.
     male_ratio_series states = Inr ratios \<and> total_series states = Inr totals \<and>
     length ratios = length states \<and> length totals = length states \<and>
     ratios ! i = (if states ! i ! 0 = 0 then NaN
                   else if 0 < states ! i ! 0 then PosInf else NegInf) \<and>
     (\<forall>x. ratios ! i \<noteq> Finite x) \<and>
     totals ! i = 0 \<and>
     (\<forall>j<length states. states ! j ! 0 + states ! j ! 1 \<noteq> 0 \<longrightarrow>
        ratios ! j = Finite (states ! j ! 0 / (states ! j ! 0 + states ! j ! 1))) \<and>
     column 2 states = Inr (map (\<lambda>row. row ! 2) states) \<and>
     column 3 states = Inr (map (\<lambda>row. row ! 3) states)"
proof -
  let ?ratios = "map (\<lambda>row. np_divide (row ! 0) (row ! 0 + row ! 1)) states"
  let ?totals = "map (\<lambda>row. row ! 0 + row ! 1) states"
  have r: "male_ratio_series states = Inr ?ratios"
    using assms(1,2) by (rule male_ratio_series_rows)
  have t: "total_series states = Inr ?totals"
    using assms(1,2) by (rule total_series_rows)
  have ri: "?ratios ! i = (if states ! i ! 0 = 0 then NaN
                   else if 0 < states ! i ! 0 then PosInf else NegInf)"
    using assms(3,4) by (simp add: np_divide_def)
  then have nf: "\<forall>x. ?ratios ! i \<noteq> Finite x" by simp
  have ti: "?totals ! i = 0" using assms(3,4) by simp
  have rj: "\<forall>j<length states. states ! j ! 0 + states ! j ! 1 \<noteq> 0 \<longrightarrow>
        ?ratios ! j = Finite (states ! j ! 0 / (states ! j ! 0 + states ! j ! 1))"
    by (simp add: np_divide_def)
  have c2: "column 2 states = Inr (map (\<lambda>row. row ! 2) states)"
    using assms(1,2) by (intro column_rows[where n = 4]) simp_all
  have c3: "column 3 states = Inr (map (\<lambda>row. row ! 3) states)"
    using assms(1,2) by (intro column_rows[where n = 4]) simp_all
  have "male_ratio_series states = Inr ?ratios \<and> total_series states = Inr ?totals \<and>
     length ?ratios = length states \<and> length ?totals = length states \<and>
     ?ratios ! i = (if states ! i ! 0 = 0 then NaN
                   else if 0 < states ! i ! 0 then PosInf else NegInf) \<and>
     (\<forall>x. ?ratios ! i \<noteq> Finite x) \<and>
     ?totals ! i = 0 \<and>
     (\<forall>j<length states. states ! j ! 0 + states ! j ! 1 \<noteq> 0 \<longrightarrow>
        ?ratios ! j = Finite (states ! j ! 0 / (states ! j ! 0 + states ! j ! 1))) \<and>
     column 2 states = Inr (map (\<lambda>row. row ! 2) states) \<and>
     column 3 states = Inr (map (\<lambda>row. row ! 3) states)"
    using r t ri nf ti rj c2 c3 by (intro conjI) simp_all
  then show ?thesis by blast
qed

theorem degenerate_ratio_witness:
  "male_ratio_series [[0, 0, 100, 5], [10, 10, 100, 5], [3, - 3, 1, 1]] =
     Inr [NaN, Finite (1 / 2), PosInf] \<and>
   total_series [[0, 0, 100, 5], [10, 10, 100, 5], [3, - 3, 1, 1]] = Inr [0, 20, 0]"
proof -
  let ?s = "[[0, 0, 100, 5], [10, 10, 100, 5], [3, - 3, 1, 1 :: real]]"
  have h1: "?s \<noteq> []" by simp
  have h2: "\<forall>row \<in> set ?s. length row = 4" by simp
  have h3: "0 < length ?s" by simp
  have h4: "?s ! 0 ! 0 + ?s ! 0 ! 1 = 0" by simp
  have ev: "male_ratio_series ?s = Inr [NaN, Finite (1 / 2), PosInf]"
    "total_series ?s = Inr [0, 20, 0]"
    by (simp_all add: male_ratio_series_def total_series_def column_def np_divide_def)
  from degenerate_ratio[OF h1 h2 h3 h4] obtain ratios totals where
    "male_ratio_series ?s = Inr ratios" "total_series ?s = Inr totals"
    "ratios ! 0 = NaN" "totals ! 0 = 0"
    by auto
  with ev show ?thesis by simp
qed

section \<open>Scarce against abundant schedules\<close>

text \<open>
  On a grid of two points the loop makes one solve, with the first schedule entry, and
  returns its result as the only state.
\<close>

lemma simulate_two_points:
  "simulate od [a, b] (r # rs) s =
     (case od (\<lambda>y \<tau>. ecosystem_model y \<tau> r) s a b of
        Inl e \<Rightarrow> Inl e
      | Inr x \<Rightarrow> Inr [x])"
proof (cases "od (\<lambda>y \<tau>. ecosystem_model y \<tau> r) s a b")
  case (Inl e)
  then show ?thesis
    unfolding simulate_def by (subst loop.simps) simp
next
  case (Inr x)
  have last: "loop od [a, b] (r # rs) (0 + 1) x ([] @ [x]) = Inr [x]"
    by (subst loop.simps) simp
  have "loop od [a, b] (r # rs) 0 s [] = loop od [a, b] (r # rs) (0 + 1) x ([] @ [x])"
    using Inr by (subst loop.simps) simp
  with last show ?thesis
    using Inr by (simp only: simulate_def sum.case)
qed

lemma first_state_of_run:
  assumes "2 \<le> length t" and "simulate od t (replicate (length t) r) s = Inr traj"
  shows "od (\<lambda>y \<tau>. ecosystem_model y \<tau> r) s (t ! 0) (t ! 1) = Inr (traj ! 0)"
proof -
  have cover: "length t - 1 \<le> length (replicate (length t) r)" by simp
  have "\<forall>k<length t - 1.
        od (\<lambda>y \<tau>. ecosystem_model y \<tau> (replicate (length t) r ! k))
           (if k = 0 then s else traj ! (k - 1)) (t ! k) (t ! (k + 1)) = Inr (traj ! k)"
    using simulate_Inr_iff[OF cover, of od s traj] assms(2) by simp
  moreover have "0 < length t - 1" using assms(1) by simp
  ultimately have "od (\<lambda>y \<tau>. ecosystem_model y \<tau> (replicate (length t) r ! 0))
           (if (0::nat) = 0 then s else traj ! (0 - 1)) (t ! 0) (t ! (0 + 1)) = Inr (traj ! 0)"
    by blast
  moreover have "replicate (length t) r ! 0 = r" using assms(1) by (cases t) auto
  ultimately show ?thesis by simp
qed

text \<open>
  Claim C8. The resource level reaches the dynamics: at every state with a non-zero
  female count the rates under the scarce level 0 and the abundant level 1 differ. The
  loop hands the solver the right-hand side of the schedule's level, so for every solver
  that tells the two right-hand sides apart at the initial state, the run with the
  schedule held at scarce and the run with it held at abundant differ, on the same
  initial state and grid: as results on a grid of two points, and in their first state
  on any longer grid when both runs return a trajectory. With one explicit Euler step as
  the solver, the initial state \<open>[10, 10, 100, 5]\<close> and the grid \<open>[0, 1]\<close> are such
  inputs: the two trajectories are computed and differ.
\<close>

theorem regime_switch_changes_trajectory:
  "(f \<noteq> 0 \<longrightarrow> ecosystem_model [m, f, h, p] \<tau> 0 \<noteq> ecosystem_model [m, f, h, p] \<tau> 1) \<and>
   (odeint (\<lambda>y \<tau>. ecosystem_model y \<tau> 0) s a b \<noteq> odeint (\<lambda>y \<tau>. ecosystem_model y \<tau> 1) s a b
      \<longrightarrow> simulate odeint [a, b] [0, 0] s \<noteq> simulate odeint [a, b] [1, 1] s) \<and>
   (2 \<le> length t \<and>
    odeint (\<lambda>y \<tau>. ecosystem_model y \<tau> 0) s (t ! 0) (t ! 1) \<noteq>
      odeint (\<lambda>y \<tau>. ecosystem_model y \<tau> 1) s (t ! 0) (t ! 1) \<and>
    simulate odeint t (replicate (length t) 0) s = Inr scarce \<and>
    simulate odeint t (replicate (length t) 1) s = Inr abundant
      \<longrightarrow> scarce ! 0 \<noteq> abundant ! 0 \<and> scarce \<noteq> abundant) \<and>
   simulate euler_solver [0, 1] [0, 0] [10, 10, 100, 5] = Inr [[306 / 25, 194 / 25, 85, 8]] \<and>
   simulate euler_solver [0, 1] [1, 1] [10, 10, 100, 5] = Inr [[262 / 25, 238 / 25, 85, 8]] \<and>
   simulate euler_solver [0, 1] [0, 0] [10, 10, 100, 5] \<noteq>
     simulate euler_solver [0, 1] [1, 1] [10, 10, 100, 5]"
proof (intro conjI impI)
  assume "f \<noteq> 0"
  then show "ecosystem_model [m, f, h, p] \<tau> 0 \<noteq> ecosystem_model [m, f, h, p] \<tau> 1"
    by (simp add: male_ratio_def Let_def)
next
  assume "odeint (\<lambda>y \<tau>. ecosystem_model y \<tau> 0) s a b \<noteq>
      odeint (\<lambda>y \<tau>. ecosystem_model y \<tau> 1) s a b"
  then show "simulate odeint [a, b] [0, 0] s \<noteq> simulate odeint [a, b] [1, 1] s"
    by (auto simp: simulate_two_points split: sum.splits)
next
  assume h: "2 \<le> length t \<and>
    odeint (\<lambda>y \<tau>. ecosystem_model y \<tau> 0) s (t ! 0) (t ! 1) \<noteq>
      odeint (\<lambda>y \<tau>. ecosystem_model y \<tau> 1) s (t ! 0) (t ! 1) \<and>
    simulate odeint t (replicate (length t) 0) s = Inr scarce \<and>
    simulate odeint t (replicate (length t) 1) s = Inr abundant"
  have "odeint (\<lambda>y \<tau>. ecosystem_model y \<tau> 0) s (t ! 0) (t ! 1) = Inr (scarce ! 0)"
    using h first_state_of_run[of t odeint 0 s scarce] by simp
  moreover have "odeint (\<lambda>y \<tau>. ecosystem_model y \<tau> 1) s (t ! 0) (t ! 1) = Inr (abundant ! 0)"
    using h first_state_of_run[of t odeint 1 s abundant] by simp
  ultimately show first: "scarce ! 0 \<noteq> abundant ! 0" using h by auto
  then show "scarce \<noteq> abundant" by auto
next
  show e0: "simulate euler_solver [0, 1] [0, 0] [10, 10, 100, 5] =
      Inr [[306 / 25, 194 / 25, 85, 8]]"
    by (simp add: simulate_two_points euler_solver_def male_ratio_def female_ratio_def Let_def)
  show e1: "simulate euler_solver [0, 1] [1, 1] [10, 10, 100, 5] =
      Inr [[262 / 25, 238 / 25, 85, 8]]"
    by (simp add: simulate_two_points euler_solver_def male_ratio_def female_ratio_def Let_def)
  show "simulate euler_solver [0, 1] [0, 0] [10, 10, 100, 5] \<noteq>
     simulate euler_solver [0, 1] [1, 1] [10, 10, 100, 5]"
    by (simp add: e0 e1)
qed

theorem regime_switch_changes_trajectory_witness:
  "(10 :: real) \<noteq> 0 \<and>
   ecosystem_model [10, 10, 100, 5] 0 0 \<noteq> ecosystem_model [10, 10, 100, 5] 0 1 \<and>
   euler_solver (\<lambda>y \<tau>. ecosystem_model y \<tau> 0) [10, 10, 100, 5] 0 1 \<noteq>
     euler_solver (\<lambda>y \<tau>. ecosystem_model y \<tau> 1) [10, 10, 100, 5] 0 1 \<and>
   simulate euler_solver [0, 1] [0, 0] [10, 10, 100, 5] \<noteq>
     simulate euler_solver [0, 1] [1, 1] [10, 10, 100, 5] \<and>
   simulate euler_solver [0, 1, 2] [0, 0, 0] [10, 10, 100, 5] =
     Inr [[306 / 25, 194 / 25, 85, 8], [37132 / 3125, 12268 / 3125, 289 / 4, 64 / 5]] \<and>
   simulate euler_solver [0, 1, 2] [1, 1, 1] [10, 10, 100, 5] =
     Inr [[262 / 25, 238 / 25, 85, 8], [29828 / 3125, 23972 / 3125, 289 / 4, 64 / 5]] \<and>
   [306 / 25, 194 / 25, 85, 8] \<noteq> [262 / 25, 238 / 25, 85, 8 :: real]"
proof -
  let ?s = "[10, 10, 100, 5 :: real]"
  let ?A = "[[306 / 25, 194 / 25, 85, 8], [37132 / 3125, 12268 / 3125, 289 / 4, 64 / 5 :: real]]"
  let ?B = "[[262 / 25, 238 / 25, 85, 8], [29828 / 3125, 23972 / 3125, 289 / 4, 64 / 5 :: real]]"
  have f: "(10 :: real) \<noteq> 0" by simp
  have d: "euler_solver (\<lambda>y \<tau>. ecosystem_model y \<tau> 0) ?s 0 1 \<noteq>
     euler_solver (\<lambda>y \<tau>. ecosystem_model y \<tau> 1) ?s 0 1"
    by (simp add: euler_solver_def male_ratio_def female_ratio_def Let_def)
  have a: "simulate euler_solver [0, 1, 2] [0, 0, 0] ?s = Inr ?A"
    by (simp add: simulate_def loop.simps euler_solver_def male_ratio_def female_ratio_def
        Let_def)
  have b: "simulate euler_solver [0, 1, 2] [1, 1, 1] ?s = Inr ?B"
    by (simp add: simulate_def loop.simps euler_solver_def male_ratio_def female_ratio_def
        Let_def)
  have len: "2 \<le> length [0, 1, 2 :: real]" by simp
  have rep0: "replicate (length [0, 1, 2 :: real]) (0 :: real) = [0, 0, 0]"
    by (simp add: numeral_eq_Suc)
  have rep1: "replicate (length [0, 1, 2 :: real]) (1 :: real) = [1, 1, 1]"
    by (simp add: numeral_eq_Suc)
  have c1: "ecosystem_model ?s 0 0 \<noteq> ecosystem_model ?s 0 1"
    using regime_switch_changes_trajectory[of 10 10 100 5 0] f by blast
  have c2: "simulate euler_solver [0, 1] [0, 0] ?s \<noteq> simulate euler_solver [0, 1] [1, 1] ?s"
    using regime_switch_changes_trajectory[of _ _ _ _ _ euler_solver ?s 0 1] d by blast
  have d': "euler_solver (\<lambda>y \<tau>. ecosystem_model y \<tau> 0) ?s ([0, 1, 2] ! 0) ([0, 1, 2] ! 1) \<noteq>
     euler_solver (\<lambda>y \<tau>. ecosystem_model y \<tau> 1) ?s ([0, 1, 2] ! 0) ([0, 1, 2] ! 1)"
    using d by simp
  have a': "simulate euler_solver [0, 1, 2] (replicate (length [0, 1, 2 :: real]) 0) ?s = Inr ?A"
    by (simp only: rep0 a)
  have b': "simulate euler_solver [0, 1, 2] (replicate (length [0, 1, 2 :: real]) 1) ?s = Inr ?B"
    by (simp only: rep1 b)
  have c3: "?A ! 0 \<noteq> ?B ! 0"
    using regime_switch_changes_trajectory[of _ _ _ _ _ euler_solver ?s _ _ "[0, 1, 2]" ?A ?B]
      len d' a' b' by blast
  from f c1 d c2 a b c3 show ?thesis by simp
qed

end
